theory Spec2Isabelle
  imports Main
begin

section \<open>Python strings\<close>

text \<open>
  A Python \<open>str\<close> is modelled as a HOL \<open>string\<close>: a list of characters, each read as
  the code point of the same number (0 to 255). \<open>length\<close> is Python's \<open>len\<close>.
  On this range \<open>str.strip\<close>, \<open>str.isspace\<close> and the regular-expression class
  \<open>\s\<close> agree on the whitespace characters listed in \<open>is_space\<close>, and \<open>\d\<close> and
  \<open>[0-9]\<close> both denote the ten ASCII digits.
\<close>

definition is_space :: "char \<Rightarrow> bool" where
  "is_space c = ((of_char c :: nat) \<in> {9, 10, 11, 12, 13, 28, 29, 30, 31, 32, 133, 160})"

definition is_digit :: "char \<Rightarrow> bool" where
  "is_digit c = (48 \<le> (of_char c :: nat) \<and> (of_char c :: nat) \<le> 57)"

definition lstrip :: "string \<Rightarrow> string" where
  "lstrip s = dropWhile is_space s"

definition rstrip :: "string \<Rightarrow> string" where
  "rstrip s = rev (dropWhile is_space (rev s))"

definition strip :: "string \<Rightarrow> string" where
  "strip s = rstrip (lstrip s)"

text \<open>\<open>str.lower\<close> on the code points 0 to 255: the ASCII capitals and the Latin-1 capitals
  (0xC0 to 0xDE without the multiplication sign 0xD7) move up by 32.\<close>

definition lower_char :: "char \<Rightarrow> char" where
  "lower_char c =
     (let n = (of_char c :: nat)
      in if (65 \<le> n \<and> n \<le> 90) \<or> (192 \<le> n \<and> n \<le> 222 \<and> n \<noteq> 215)
         then char_of (n + 32) else c)"

definition lower :: "string \<Rightarrow> string" where
  "lower s = map lower_char s"

definition startswith :: "string \<Rightarrow> string \<Rightarrow> bool" where
  "startswith s p = (take (length p) s = p)"

definition endswith :: "string \<Rightarrow> string \<Rightarrow> bool" where
  "endswith s p = (length p \<le> length s \<and> drop (length s - length p) s = p)"

text \<open>Slices \<open>s[:k]\<close> and \<open>s[k:]\<close>; a negative \<open>k\<close> counts from the end.\<close>

definition py_take :: "int \<Rightarrow> string \<Rightarrow> string" where
  "py_take k s = (if 0 \<le> k then take (nat k) s else take (nat (int (length s) + k)) s)"

definition py_drop :: "int \<Rightarrow> string \<Rightarrow> string" where
  "py_drop k s = (if 0 \<le> k then drop (nat k) s else drop (nat (int (length s) + k)) s)"

text \<open>\<open>s.rfind(sub)\<close>: the highest index at which \<open>sub\<close> occurs in \<open>s\<close>, or \<open>-1\<close>.\<close>

fun rfind_from :: "string \<Rightarrow> string \<Rightarrow> nat \<Rightarrow> int" where
  "rfind_from s sub 0 = (if take (length sub) s = sub then 0 else - 1)"
| "rfind_from s sub (Suc i) =
     (if take (length sub) (drop (Suc i) s) = sub then int (Suc i) else rfind_from s sub i)"

definition rfind :: "string \<Rightarrow> string \<Rightarrow> int" where
  "rfind s sub = (if length s < length sub then - 1 else rfind_from s sub (length s - length sub))"

section \<open>normalize.py\<close>

definition WHATSAPP_TEXT_CHUNK_LIMIT :: int where
  "WHATSAPP_TEXT_CHUNK_LIMIT = 4096"

subsection \<open>The regular expressions\<close>

text \<open>
  Without \<open>re.MULTILINE\<close>, \<open>$\<close> matches at the end of the string and also just before a
  newline that ends the string. None of the three anchored patterns below can itself end in a
  newline, so each matches \<open>s\<close> exactly when it matches the whole of \<open>dollar s\<close>.
\<close>

definition dollar :: "string \<Rightarrow> string" where
  "dollar s = (if s \<noteq> [] \<and> last s = CHR 0x0A then butlast s else s)"

text \<open>\<open>_WHATSAPP_USER_JID_RE = ^(\d+)(?::\d+)?@s\.whatsapp\.net$\<close>, ignoring case; the result
  is group 1 of the match.\<close>

definition WHATSAPP_USER_JID_RE :: "string \<Rightarrow> string option" where
  "WHATSAPP_USER_JID_RE s =
     (let t = dollar s; d1 = takeWhile is_digit t; r = dropWhile is_digit t;
          r' = (case r of
                  [] \<Rightarrow> r
                | c # u \<Rightarrow> if c = CHR '':'' \<and> takeWhile is_digit u \<noteq> []
                           then dropWhile is_digit u else r)
      in if d1 \<noteq> [] \<and> lower r' = ''@s.whatsapp.net'' then Some d1 else None)"

text \<open>\<open>_WHATSAPP_LID_RE = ^(\d+)@lid$\<close>, ignoring case.\<close>

definition WHATSAPP_LID_RE :: "string \<Rightarrow> string option" where
  "WHATSAPP_LID_RE s =
     (let t = dollar s; d1 = takeWhile is_digit t; r = dropWhile is_digit t
      in if d1 \<noteq> [] \<and> lower r = ''@lid'' then Some d1 else None)"

text \<open>\<open>_WHATSAPP_PREFIX_RE = ^whatsapp:\<close>, ignoring case; \<open>sub("", s)\<close> removes the one match
  at the start of the string.\<close>

definition WHATSAPP_PREFIX_RE_sub :: "string \<Rightarrow> string" where
  "WHATSAPP_PREFIX_RE_sub s = (if lower (take 9 s) = ''whatsapp:'' then drop 9 s else s)"

text \<open>\<open>_GROUP_LOCAL_RE = ^[0-9]+(-[0-9]+)*$\<close> as an automaton over the characters; the flag
  says that the current run of digits is not empty.\<close>

fun group_local_run :: "bool \<Rightarrow> string \<Rightarrow> bool" where
  "group_local_run seen [] = seen"
| "group_local_run seen (c # cs) =
     (if is_digit c then group_local_run True cs
      else if c = CHR ''-'' \<and> seen then group_local_run False cs
      else False)"

definition GROUP_LOCAL_RE :: "string \<Rightarrow> bool" where
  "GROUP_LOCAL_RE s = group_local_run False (dollar s)"

subsection \<open>Prefix stripping\<close>

lemma length_strip_le: "length (strip s) \<le> length s"
proof -
  have "length (rstrip (lstrip s)) \<le> length (lstrip s)"
    unfolding rstrip_def
    by (metis length_dropWhile_le length_rev)
  also have "\<dots> \<le> length s"
    unfolding lstrip_def by (rule length_dropWhile_le)
  finally show ?thesis by (simp add: strip_def)
qed

lemma length_prefix_sub_le: "length (WHATSAPP_PREFIX_RE_sub s) \<le> length s"
  by (simp add: WHATSAPP_PREFIX_RE_sub_def)

lemma strip_same_length: "length (strip s) = length s \<Longrightarrow> strip s = s"
proof -
  assume eq: "length (strip s) = length s"
  have l1: "length (rstrip (lstrip s)) \<le> length (lstrip s)"
    unfolding rstrip_def by (metis length_dropWhile_le length_rev)
  have l2: "length (lstrip s) \<le> length s"
    unfolding lstrip_def by (rule length_dropWhile_le)
  from eq l1 l2 have a: "length (lstrip s) = length s"
    and b: "length (rstrip (lstrip s)) = length (lstrip s)"
    by (simp_all add: strip_def)
  from a have ls: "lstrip s = s"
    unfolding lstrip_def
    by (metis takeWhile_dropWhile_id length_append add_cancel_left_left length_0_conv
        append_self_conv2)
  from b ls have "length (dropWhile is_space (rev s)) = length (rev s)"
    by (simp add: rstrip_def)
  then have "dropWhile is_space (rev s) = rev s"
    by (metis takeWhile_dropWhile_id length_append add_cancel_left_left length_0_conv
        append_self_conv2)
  then show ?thesis by (simp add: strip_def ls rstrip_def)
qed

function strip_whatsapp_target_prefixes_loop :: "string \<Rightarrow> string" where
  "strip_whatsapp_target_prefixes_loop candidate =
     (let candidate' = strip (WHATSAPP_PREFIX_RE_sub candidate)
      in if candidate' = candidate then candidate'
         else strip_whatsapp_target_prefixes_loop candidate')"
  by pat_completeness auto
termination
proof (relation "measure length")
  show "wf (measure length)" by simp
next
  fix candidate candidate'
  assume c: "candidate' = strip (WHATSAPP_PREFIX_RE_sub candidate)"
    and ne: "candidate' \<noteq> candidate"
  have le: "length candidate' \<le> length candidate"
    unfolding c
    by (rule order_trans [OF length_strip_le length_prefix_sub_le])
  have "length candidate' \<noteq> length candidate"
  proof
    assume eq: "length candidate' = length candidate"
    have l1: "length (strip (WHATSAPP_PREFIX_RE_sub candidate))
                \<le> length (WHATSAPP_PREFIX_RE_sub candidate)"
      by (rule length_strip_le)
    have l2: "length (WHATSAPP_PREFIX_RE_sub candidate) \<le> length candidate"
      by (rule length_prefix_sub_le)
    from eq c l1 l2 have s1: "length (WHATSAPP_PREFIX_RE_sub candidate) = length candidate"
      and s2: "length (strip (WHATSAPP_PREFIX_RE_sub candidate))
                 = length (WHATSAPP_PREFIX_RE_sub candidate)"
      by simp_all
    have "WHATSAPP_PREFIX_RE_sub candidate = candidate"
    proof (cases "lower (take 9 candidate) = ''whatsapp:''")
      case True
      then have "length (lower (take 9 candidate)) = 9" by simp
      then have "9 \<le> length candidate" by (simp add: lower_def)
      with s1 True show ?thesis by (simp add: WHATSAPP_PREFIX_RE_sub_def)
    next
      case False
      then show ?thesis by (simp add: WHATSAPP_PREFIX_RE_sub_def)
    qed
    moreover from s2 have "strip (WHATSAPP_PREFIX_RE_sub candidate)
                             = WHATSAPP_PREFIX_RE_sub candidate"
      by (rule strip_same_length)
    ultimately show False using c ne by simp
  qed
  with le show "(candidate', candidate) \<in> measure length" by simp
qed

definition strip_whatsapp_target_prefixes :: "string \<Rightarrow> string" where
  "strip_whatsapp_target_prefixes v = strip_whatsapp_target_prefixes_loop (strip v)"

subsection \<open>E.164 normalization\<close>

text \<open>\<open>re.sub(r"[\s\-(). ]+", "", input_)\<close> deletes every character of the class, and
  \<open>re.sub(r"[^\d+]", "", stripped)\<close> deletes every character that is neither a digit nor
  a plus sign.\<close>

definition normalize_e164 :: "string \<Rightarrow> string" where
  "normalize_e164 input =
     (let stripped = filter (\<lambda>c. \<not> (is_space c \<or> c = CHR ''-'' \<or> c = CHR ''(''
                                      \<or> c = CHR '')'' \<or> c = CHR ''.'' \<or> c = CHR '' '')) input;
          digits_only = filter (\<lambda>c. is_digit c \<or> c = CHR ''+'') stripped
      in if digits_only = [] then []
         else if startswith digits_only ''+'' then digits_only
         else if startswith digits_only ''00'' then ''+'' @ drop 2 digits_only
         else if 10 \<le> length digits_only then ''+'' @ digits_only
         else digits_only)"

subsection \<open>JID classification and target normalization\<close>

definition is_whatsapp_group_jid :: "string \<Rightarrow> bool" where
  "is_whatsapp_group_jid v =
     (let candidate = strip_whatsapp_target_prefixes v; lower' = lower candidate
      in if \<not> endswith lower' ''@g.us'' then False
         else let local_part = take (length candidate - length ''@g.us'') candidate
              in if local_part = [] \<or> CHR ''@'' \<in> set local_part then False
                 else GROUP_LOCAL_RE local_part)"

definition is_whatsapp_user_target :: "string \<Rightarrow> bool" where
  "is_whatsapp_user_target v =
     (let candidate = strip_whatsapp_target_prefixes v
      in WHATSAPP_USER_JID_RE candidate \<noteq> None \<or> WHATSAPP_LID_RE candidate \<noteq> None)"

definition extract_user_jid_phone :: "string \<Rightarrow> string option" where
  "extract_user_jid_phone jid =
     (case WHATSAPP_USER_JID_RE jid of
        Some g \<Rightarrow> Some g
      | None \<Rightarrow> (case WHATSAPP_LID_RE jid of Some g \<Rightarrow> Some g | None \<Rightarrow> None))"

definition normalize_whatsapp_target :: "string \<Rightarrow> string option" where
  "normalize_whatsapp_target v =
     (let candidate = strip_whatsapp_target_prefixes v
      in if candidate = [] then None
         else if is_whatsapp_group_jid candidate
           then Some (take (length candidate - length ''@g.us'') candidate @ ''@g.us'')
         else if is_whatsapp_user_target candidate
           then (case extract_user_jid_phone candidate of
                   None \<Rightarrow> None
                 | Some phone \<Rightarrow>
                     (let normalized = normalize_e164 phone
                      in if 1 < length normalized then Some normalized else None))
         else if CHR ''@'' \<in> set candidate then None
         else (let normalized = normalize_e164 candidate
               in if 1 < length normalized then Some normalized else None))"

subsection \<open>Text chunking\<close>

text \<open>\<open>int(limit * 0.5)\<close> truncates towards zero. The product is exact for every limit
  below \<open>2^53\<close>, far beyond the length of any string.\<close>

definition half_of :: "int \<Rightarrow> int" where
  "half_of limit = (if 0 \<le> limit then limit div 2 else - ((- limit) div 2))"

definition split_at_break_point :: "string \<Rightarrow> int \<Rightarrow> string \<times> string" where
  "split_at_break_point text limit =
     (if int (length text) \<le> limit then (text, [])
      else
        let search_area = py_take limit text;
            half = half_of limit;
            idx = rfind search_area [CHR 0x0A, CHR 0x0A]
        in if half < idx then (rstrip (py_take idx text), lstrip (py_drop (idx + 2) text))
        else
        let idx = rfind search_area [CHR 0x0A]
        in if half < idx then (rstrip (py_take idx text), lstrip (py_drop (idx + 1) text))
        else
        let sentence_end = max (max (rfind search_area ''. '') (rfind search_area ''! ''))
                               (rfind search_area ''? '')
        in if half < sentence_end
           then (rstrip (py_take (sentence_end + 1) text),
                 lstrip (py_drop (sentence_end + 2) text))
        else
        let idx = rfind search_area '' ''
        in if half < idx then (rstrip (py_take idx text), lstrip (py_drop (idx + 1) text))
        else (py_take limit text, py_drop limit text))"

text \<open>The \<open>while remaining:\<close> loop. Nothing bounds the number of its rounds, so it is a
  partial function: \<open>None\<close> is the loop that never ends.\<close>

partial_function (option) chunk_loop :: "string \<Rightarrow> int \<Rightarrow> string list \<Rightarrow> string list option"
  where
  "chunk_loop remaining limit chunks =
     (if remaining = [] then Some chunks
      else (let (chunk, rest) = split_at_break_point remaining limit
            in chunk_loop rest limit (if chunk \<noteq> [] then chunks @ [chunk] else chunks)))"

declare chunk_loop.simps [code]

definition chunk_whatsapp_text :: "string \<Rightarrow> int option \<Rightarrow> string list option" where
  "chunk_whatsapp_text text limit =
     (let effective_limit = (case limit of Some l \<Rightarrow> l | None \<Rightarrow> WHATSAPP_TEXT_CHUNK_LIMIT)
      in if text = [] \<or> strip text = [] then Some []
         else let normalized_text = strip text
              in if int (length normalized_text) \<le> effective_limit then Some [normalized_text]
                 else map_option (filter (\<lambda>c. c \<noteq> []))
                        (chunk_loop normalized_text effective_limit []))"

text \<open>The limit that \<open>chunk_whatsapp_text\<close> works with: the argument, or the default when
  there is none.\<close>

definition effective_limit :: "int option \<Rightarrow> int" where
  "effective_limit limit = (case limit of Some l \<Rightarrow> l | None \<Rightarrow> WHATSAPP_TEXT_CHUNK_LIMIT)"

section \<open>accounts.py\<close>

definition DEFAULT_ACCOUNT_ID :: string where
  "DEFAULT_ACCOUNT_ID = ''default''"

datatype WhatsAppTokenSource = CONFIG | ENV | CHARACTER | NONE

subsection \<open>Configuration models\<close>

text \<open>An allowlist is a \<open>list[str | int]\<close>; \<open>str(a)\<close> of an entry is the string itself or
  the decimal numeral of the integer.\<close>

datatype allow_entry = AStr string | AInt int

function str_nat :: "nat \<Rightarrow> string" where
  "str_nat n = (if n < 10 then [char_of (48 + n)]
                else str_nat (n div 10) @ [char_of (48 + n mod 10)])"
  by pat_completeness auto
termination
  by (relation "measure id") auto

definition str_int :: "int \<Rightarrow> string" where
  "str_int i = (if i < 0 then ''-'' @ str_nat (nat (- i)) else str_nat (nat i))"

fun str :: "allow_entry \<Rightarrow> string" where
  "str (AStr s) = s"
| "str (AInt i) = str_int i"

record WhatsAppGroupRuntimeConfig =
  g_enabled :: "bool option"
  g_allow_from :: "allow_entry list option"
  g_require_mention :: "bool option"
  g_system_prompt :: "string option"
  g_skills :: "string list option"

text \<open>The two policy fields hold strings: the \<open>Literal\<close> annotation is enforced when a model
  is constructed (\<open>DM_POLICIES\<close>, \<open>GROUP_POLICIES\<close> below), not when a field is assigned, and
  the policy functions compare the field with string literals.\<close>

record WhatsAppAccountRuntimeConfig =
  a_name :: "string option"
  a_enabled :: "bool option"
  a_access_token :: "string option"
  a_phone_number_id :: "string option"
  a_business_account_id :: "string option"
  a_webhook_verify_token :: "string option"
  a_api_version :: "string option"
  a_allow_from :: "allow_entry list option"
  a_group_allow_from :: "allow_entry list option"
  a_dm_policy :: "string option"
  a_group_policy :: "string option"
  a_media_max_mb :: "int option"
  a_text_chunk_limit :: "int option"
  a_groups :: "(string \<times> WhatsAppGroupRuntimeConfig) list option"

record WhatsAppMultiAccountConfig =
  m_enabled :: "bool option"
  m_access_token :: "string option"
  m_phone_number_id :: "string option"
  m_business_account_id :: "string option"
  m_webhook_verify_token :: "string option"
  m_api_version :: "string option"
  m_dm_policy :: "string option"
  m_group_policy :: "string option"
  m_media_max_mb :: "int option"
  m_text_chunk_limit :: "int option"
  m_accounts :: "(string \<times> WhatsAppAccountRuntimeConfig) list option"
  m_groups :: "(string \<times> WhatsAppGroupRuntimeConfig) list option"

record WhatsAppTokenResolution =
  token :: string
  source :: WhatsAppTokenSource

record ResolvedWhatsAppAccount =
  r_account_id :: string
  r_enabled :: bool
  r_name :: "string option"
  r_access_token :: string
  r_phone_number_id :: string
  r_business_account_id :: "string option"
  r_token_source :: WhatsAppTokenSource
  r_configured :: bool
  r_config :: WhatsAppAccountRuntimeConfig

subsection \<open>Model construction\<close>

text \<open>
  The models are pydantic models: constructing one from a dict validates every value
  against the annotation of its field and raises \<open>ValidationError\<close> when one does not fit.
  A dict that has not been validated yet is a record of fields, each classified by what
  the validator of its annotation does with the value: \<open>Missing\<close> (the key is absent or
  \<open>None\<close>), \<open>Accepted v\<close> (the value fits and the model holds \<open>v\<close>) or \<open>Rejected\<close> (the
  value does not fit: a string that is no number for an \<open>int\<close> field, a list for a dict
  field). For a policy field \<open>Accepted s\<close> is any string \<open>s\<close>; whether it is one of the
  \<open>Literal\<close> values is decided here. A dict is an association list with distinct keys,
  in the dict's order.
\<close>

datatype error = ValidationError

datatype 'a field = Missing | Accepted 'a | Rejected

fun accepted :: "'a field \<Rightarrow> bool" where
  "accepted Rejected = False"
| "accepted _ = True"

fun field_value :: "'a field \<Rightarrow> 'a option" where
  "field_value (Accepted v) = Some v"
| "field_value _ = None"

definition DM_POLICIES :: "string list" where
  "DM_POLICIES = [''open'', ''allowlist'', ''pairing'', ''disabled'']"

definition GROUP_POLICIES :: "string list" where
  "GROUP_POLICIES = [''open'', ''allowlist'', ''disabled'']"

definition literal_ok :: "string list \<Rightarrow> string option \<Rightarrow> bool" where
  "literal_ok allowed v = (case v of None \<Rightarrow> True | Some s \<Rightarrow> s \<in> set allowed)"

record raw_group =
  rg_enabled :: "bool field"
  rg_allowFrom :: "allow_entry list field"
  rg_requireMention :: "bool field"
  rg_systemPrompt :: "string field"
  rg_skills :: "string list field"

record raw_account =
  ra_name :: "string field"
  ra_enabled :: "bool field"
  ra_accessToken :: "string field"
  ra_phoneNumberId :: "string field"
  ra_businessAccountId :: "string field"
  ra_webhookVerifyToken :: "string field"
  ra_apiVersion :: "string field"
  ra_allowFrom :: "allow_entry list field"
  ra_groupAllowFrom :: "allow_entry list field"
  ra_dmPolicy :: "string field"
  ra_groupPolicy :: "string field"
  ra_mediaMaxMb :: "int field"
  ra_textChunkLimit :: "int field"
  ra_groups :: "(string \<times> raw_group) list field"

record raw_multi =
  rm_enabled :: "bool field"
  rm_accessToken :: "string field"
  rm_phoneNumberId :: "string field"
  rm_businessAccountId :: "string field"
  rm_webhookVerifyToken :: "string field"
  rm_apiVersion :: "string field"
  rm_dmPolicy :: "string field"
  rm_groupPolicy :: "string field"
  rm_mediaMaxMb :: "int field"
  rm_textChunkLimit :: "int field"
  rm_accounts :: "(string \<times> raw_account) list field"
  rm_groups :: "(string \<times> raw_group) list field"

text \<open>\<open>WhatsAppGroupRuntimeConfig(**d)\<close>.\<close>

definition validate_group :: "raw_group \<Rightarrow> error + WhatsAppGroupRuntimeConfig" where
  "validate_group d =
     (if accepted (rg_enabled d) \<and> accepted (rg_allowFrom d) \<and> accepted (rg_requireMention d)
         \<and> accepted (rg_systemPrompt d) \<and> accepted (rg_skills d)
      then Inr \<lparr> g_enabled = field_value (rg_enabled d),
                 g_allow_from = field_value (rg_allowFrom d),
                 g_require_mention = field_value (rg_requireMention d),
                 g_system_prompt = field_value (rg_systemPrompt d),
                 g_skills = field_value (rg_skills d) \<rparr>
      else Inl ValidationError)"

text \<open>A field of type \<open>dict[str, M] | None\<close>: every value is validated as an \<open>M\<close>.\<close>

fun validate_dict :: "('r \<Rightarrow> error + 'v) \<Rightarrow> (string \<times> 'r) list \<Rightarrow> error + (string \<times> 'v) list" where
  "validate_dict f [] = Inr []"
| "validate_dict f ((k, r) # rest) =
     (case f r of
        Inl e \<Rightarrow> Inl e
      | Inr v \<Rightarrow> (case validate_dict f rest of
                    Inl e \<Rightarrow> Inl e
                  | Inr vs \<Rightarrow> Inr ((k, v) # vs)))"

fun validate_dict_field ::
  "('r \<Rightarrow> error + 'v) \<Rightarrow> (string \<times> 'r) list field \<Rightarrow> error + (string \<times> 'v) list option" where
  "validate_dict_field f Missing = Inr None"
| "validate_dict_field f Rejected = Inl ValidationError"
| "validate_dict_field f (Accepted d) =
     (case validate_dict f d of Inl e \<Rightarrow> Inl e | Inr vs \<Rightarrow> Inr (Some vs))"

text \<open>\<open>WhatsAppAccountRuntimeConfig(**d)\<close>.\<close>

definition validate_account :: "raw_account \<Rightarrow> error + WhatsAppAccountRuntimeConfig" where
  "validate_account d =
     (case validate_dict_field validate_group (ra_groups d) of
        Inl e \<Rightarrow> Inl e
      | Inr groups \<Rightarrow>
          if accepted (ra_name d) \<and> accepted (ra_enabled d) \<and> accepted (ra_accessToken d)
             \<and> accepted (ra_phoneNumberId d) \<and> accepted (ra_businessAccountId d)
             \<and> accepted (ra_webhookVerifyToken d) \<and> accepted (ra_apiVersion d)
             \<and> accepted (ra_allowFrom d) \<and> accepted (ra_groupAllowFrom d)
             \<and> accepted (ra_dmPolicy d) \<and> literal_ok DM_POLICIES (field_value (ra_dmPolicy d))
             \<and> accepted (ra_groupPolicy d)
             \<and> literal_ok GROUP_POLICIES (field_value (ra_groupPolicy d))
             \<and> accepted (ra_mediaMaxMb d) \<and> accepted (ra_textChunkLimit d)
          then Inr \<lparr> a_name = field_value (ra_name d),
                     a_enabled = field_value (ra_enabled d),
                     a_access_token = field_value (ra_accessToken d),
                     a_phone_number_id = field_value (ra_phoneNumberId d),
                     a_business_account_id = field_value (ra_businessAccountId d),
                     a_webhook_verify_token = field_value (ra_webhookVerifyToken d),
                     a_api_version = field_value (ra_apiVersion d),
                     a_allow_from = field_value (ra_allowFrom d),
                     a_group_allow_from = field_value (ra_groupAllowFrom d),
                     a_dm_policy = field_value (ra_dmPolicy d),
                     a_group_policy = field_value (ra_groupPolicy d),
                     a_media_max_mb = field_value (ra_mediaMaxMb d),
                     a_text_chunk_limit = field_value (ra_textChunkLimit d),
                     a_groups = groups \<rparr>
          else Inl ValidationError)"

text \<open>\<open>WhatsAppMultiAccountConfig(enabled=wa.get("enabled"), ...)\<close>.\<close>

definition validate_multi :: "raw_multi \<Rightarrow> error + WhatsAppMultiAccountConfig" where
  "validate_multi d =
     (case validate_dict_field validate_account (rm_accounts d) of
        Inl e \<Rightarrow> Inl e
      | Inr accounts \<Rightarrow>
          (case validate_dict_field validate_group (rm_groups d) of
             Inl e \<Rightarrow> Inl e
           | Inr groups \<Rightarrow>
               if accepted (rm_enabled d) \<and> accepted (rm_accessToken d)
                  \<and> accepted (rm_phoneNumberId d) \<and> accepted (rm_businessAccountId d)
                  \<and> accepted (rm_webhookVerifyToken d) \<and> accepted (rm_apiVersion d)
                  \<and> accepted (rm_dmPolicy d)
                  \<and> literal_ok DM_POLICIES (field_value (rm_dmPolicy d))
                  \<and> accepted (rm_groupPolicy d)
                  \<and> literal_ok GROUP_POLICIES (field_value (rm_groupPolicy d))
                  \<and> accepted (rm_mediaMaxMb d) \<and> accepted (rm_textChunkLimit d)
               then Inr \<lparr> m_enabled = field_value (rm_enabled d),
                          m_access_token = field_value (rm_accessToken d),
                          m_phone_number_id = field_value (rm_phoneNumberId d),
                          m_business_account_id = field_value (rm_businessAccountId d),
                          m_webhook_verify_token = field_value (rm_webhookVerifyToken d),
                          m_api_version = field_value (rm_apiVersion d),
                          m_dm_policy = field_value (rm_dmPolicy d),
                          m_group_policy = field_value (rm_groupPolicy d),
                          m_media_max_mb = field_value (rm_mediaMaxMb d),
                          m_text_chunk_limit = field_value (rm_textChunkLimit d),
                          m_accounts = accounts,
                          m_groups = groups \<rparr>
               else Inl ValidationError))"

text \<open>\<open>WhatsAppAccountRuntimeConfig(**merged)\<close> for a dict whose values come from validated
  models and from runtime settings: every value has the type of its field, so only the
  two \<open>Literal\<close> annotations can refuse one.\<close>

definition construct_account_config ::
  "WhatsAppAccountRuntimeConfig \<Rightarrow> error + WhatsAppAccountRuntimeConfig" where
  "construct_account_config merged =
     (if literal_ok DM_POLICIES (a_dm_policy merged)
         \<and> literal_ok GROUP_POLICIES (a_group_policy merged)
      then Inr merged else Inl ValidationError)"

subsection \<open>The runtime\<close>

text \<open>
  \<open>whatsapp\<close> is what \<open>_get_character_whatsapp\<close> returns: the dict at
  \<open>character.settings.whatsapp\<close>, or \<open>None\<close> when the character, its settings or that key
  is missing or is not a dict. \<open>settings\<close> is \<open>runtime.get_setting\<close>.
\<close>

record AgentRuntime =
  whatsapp :: "raw_multi option"
  settings :: "string \<Rightarrow> string option"

definition get_setting :: "AgentRuntime \<Rightarrow> string \<Rightarrow> string option" where
  "get_setting runtime key = settings runtime key"

definition get_character_whatsapp :: "AgentRuntime \<Rightarrow> raw_multi option" where
  "get_character_whatsapp runtime = whatsapp runtime"

definition normalize_account_id :: "string option \<Rightarrow> string" where
  "normalize_account_id account_id =
     (case account_id of
        None \<Rightarrow> DEFAULT_ACCOUNT_ID
      | Some a \<Rightarrow>
          if a = [] then DEFAULT_ACCOUNT_ID
          else let trimmed = lower (strip a)
               in if trimmed = [] \<or> trimmed = ''default'' then DEFAULT_ACCOUNT_ID
                  else trimmed)"

text \<open>The model with no argument: every field is \<open>None\<close>. An empty dict takes this branch
  in the source; validating it gives the same model.\<close>

definition empty_multi_config :: WhatsAppMultiAccountConfig where
  "empty_multi_config =
     \<lparr> m_enabled = None, m_access_token = None, m_phone_number_id = None,
       m_business_account_id = None, m_webhook_verify_token = None, m_api_version = None,
       m_dm_policy = None, m_group_policy = None, m_media_max_mb = None,
       m_text_chunk_limit = None, m_accounts = None, m_groups = None \<rparr>"

definition get_multi_account_config :: "AgentRuntime \<Rightarrow> error + WhatsAppMultiAccountConfig" where
  "get_multi_account_config runtime =
     (case get_character_whatsapp runtime of
        None \<Rightarrow> Inr empty_multi_config
      | Some wa \<Rightarrow> validate_multi wa)"

subsection \<open>Account lookup and token resolution\<close>

definition get_account_config ::
  "AgentRuntime \<Rightarrow> string \<Rightarrow> error + WhatsAppAccountRuntimeConfig option" where
  "get_account_config runtime account_id =
     (case get_multi_account_config runtime of
        Inl e \<Rightarrow> Inl e
      | Inr config \<Rightarrow>
          Inr (case m_accounts config of
                 None \<Rightarrow> None
               | Some accounts \<Rightarrow>
                   if accounts = [] then None
                   else (case map_of accounts account_id of
                           Some direct \<Rightarrow> Some direct
                         | None \<Rightarrow>
                             (let normalized = normalize_account_id (Some account_id)
                              in case find (\<lambda>(key, val). normalize_account_id (Some key)
                                                           = normalized) accounts of
                                   Some (key, val) \<Rightarrow> Some val
                                 | None \<Rightarrow> None))))"

text \<open>\<open>x and x.strip()\<close> as a condition, for an optional string \<open>x\<close>.\<close>

definition nonblank :: "string option \<Rightarrow> bool" where
  "nonblank x = (case x of None \<Rightarrow> False | Some s \<Rightarrow> s \<noteq> [] \<and> strip s \<noteq> [])"

definition resolve_whatsapp_token :: "AgentRuntime \<Rightarrow> string \<Rightarrow> error + WhatsAppTokenResolution" where
  "resolve_whatsapp_token runtime account_id =
     (case get_multi_account_config runtime of
        Inl e \<Rightarrow> Inl e
      | Inr multi_config \<Rightarrow>
     (case get_account_config runtime account_id of
        Inl e \<Rightarrow> Inl e
      | Inr account_config \<Rightarrow>
          if account_config \<noteq> None \<and> nonblank (a_access_token (the account_config))
          then Inr \<lparr> token = strip (the (a_access_token (the account_config))),
                     source = CONFIG \<rparr>
          else if account_id = DEFAULT_ACCOUNT_ID
                  \<and> nonblank (m_access_token multi_config)
          then Inr \<lparr> token = strip (the (m_access_token multi_config)), source = CONFIG \<rparr>
          else if account_id = DEFAULT_ACCOUNT_ID
                  \<and> nonblank (get_setting runtime ''WHATSAPP_ACCESS_TOKEN'')
          then Inr \<lparr> token = strip (the (get_setting runtime ''WHATSAPP_ACCESS_TOKEN'')),
                     source = ENV \<rparr>
          else Inr \<lparr> token = [], source = NONE \<rparr>))"

subsection \<open>Config merging and account resolution\<close>

text \<open>\<open>value or None\<close> for a setting: the empty string becomes \<open>None\<close>.\<close>

definition or_None :: "string option \<Rightarrow> string option" where
  "or_None v = (case v of None \<Rightarrow> None | Some s \<Rightarrow> if s = [] then None else Some s)"

text \<open>One key of \<open>{**_filter_defined(env_dict), **_filter_defined(base_dict),
  **_filter_defined(account_dict)}\<close>: the last of the three values that is not \<open>None\<close>.\<close>

definition merged_key :: "'a option \<Rightarrow> 'a option \<Rightarrow> 'a option \<Rightarrow> 'a option" where
  "merged_key env base account =
     (case account of
        Some v \<Rightarrow> Some v
      | None \<Rightarrow> (case base of Some v \<Rightarrow> Some v | None \<Rightarrow> env))"

text \<open>A key of \<open>account_dict\<close>, which is \<open>{}\<close> when there is no account configuration.\<close>

definition account_key ::
  "WhatsAppAccountRuntimeConfig option \<Rightarrow> (WhatsAppAccountRuntimeConfig \<Rightarrow> 'a option) \<Rightarrow> 'a option" where
  "account_key account_config f = (case account_config of None \<Rightarrow> None | Some a \<Rightarrow> f a)"

definition merge_whatsapp_account_config ::
  "AgentRuntime \<Rightarrow> string \<Rightarrow> error + WhatsAppAccountRuntimeConfig" where
  "merge_whatsapp_account_config runtime account_id =
     (case get_multi_account_config runtime of
        Inl e \<Rightarrow> Inl e
      | Inr multi_config \<Rightarrow>
     (case get_account_config runtime account_id of
        Inl e \<Rightarrow> Inl e
      | Inr account_config \<Rightarrow>
          (let env_token = get_setting runtime ''WHATSAPP_ACCESS_TOKEN'';
               env_phone = get_setting runtime ''WHATSAPP_PHONE_NUMBER_ID'';
               env_business = get_setting runtime ''WHATSAPP_BUSINESS_ACCOUNT_ID'';
               env_webhook = get_setting runtime ''WHATSAPP_WEBHOOK_VERIFY_TOKEN'';
               env_dm_policy = get_setting runtime ''WHATSAPP_DM_POLICY'';
               env_group_policy = get_setting runtime ''WHATSAPP_GROUP_POLICY''
           in construct_account_config
                \<lparr> a_name = merged_key None None (account_key account_config a_name),
                  a_enabled = merged_key None (m_enabled multi_config)
                                (account_key account_config a_enabled),
                  a_access_token = merged_key (or_None env_token) (m_access_token multi_config)
                                     (account_key account_config a_access_token),
                  a_phone_number_id =
                    merged_key (or_None env_phone) (m_phone_number_id multi_config)
                      (account_key account_config a_phone_number_id),
                  a_business_account_id =
                    merged_key (or_None env_business) (m_business_account_id multi_config)
                      (account_key account_config a_business_account_id),
                  a_webhook_verify_token =
                    merged_key (or_None env_webhook) (m_webhook_verify_token multi_config)
                      (account_key account_config a_webhook_verify_token),
                  a_api_version = merged_key None (m_api_version multi_config)
                                    (account_key account_config a_api_version),
                  a_allow_from = merged_key None None (account_key account_config a_allow_from),
                  a_group_allow_from =
                    merged_key None None (account_key account_config a_group_allow_from),
                  a_dm_policy = merged_key (or_None env_dm_policy) (m_dm_policy multi_config)
                                  (account_key account_config a_dm_policy),
                  a_group_policy =
                    merged_key (or_None env_group_policy) (m_group_policy multi_config)
                      (account_key account_config a_group_policy),
                  a_media_max_mb = merged_key None (m_media_max_mb multi_config)
                                     (account_key account_config a_media_max_mb),
                  a_text_chunk_limit = merged_key None (m_text_chunk_limit multi_config)
                                         (account_key account_config a_text_chunk_limit),
                  a_groups = merged_key None (m_groups multi_config)
                               (account_key account_config a_groups) \<rparr>)))"

text \<open>\<open>(x.strip() if x else None) or None\<close>.\<close>

definition strip_or_None :: "string option \<Rightarrow> string option" where
  "strip_or_None x =
     (case x of
        None \<Rightarrow> None
      | Some s \<Rightarrow> if s = [] then None else if strip s = [] then None else Some (strip s))"

definition resolve_whatsapp_account ::
  "AgentRuntime \<Rightarrow> string option \<Rightarrow> error + ResolvedWhatsAppAccount" where
  "resolve_whatsapp_account runtime account_id =
     (let normalized_id = normalize_account_id account_id
      in case get_multi_account_config runtime of
           Inl e \<Rightarrow> Inl e
         | Inr multi_config \<Rightarrow>
        (let base_enabled = (m_enabled multi_config \<noteq> Some False)
         in case merge_whatsapp_account_config runtime normalized_id of
              Inl e \<Rightarrow> Inl e
            | Inr merged \<Rightarrow>
           (let account_enabled = (a_enabled merged \<noteq> Some False);
                enabled = (base_enabled \<and> account_enabled)
            in case resolve_whatsapp_token runtime normalized_id of
                 Inl e \<Rightarrow> Inl e
               | Inr resolution \<Rightarrow>
                   (let phone_number_id =
                          strip (case a_phone_number_id merged of None \<Rightarrow> [] | Some s \<Rightarrow> s);
                        configured = (token resolution \<noteq> [] \<and> phone_number_id \<noteq> [])
                    in Inr \<lparr> r_account_id = normalized_id,
                              r_enabled = enabled,
                              r_name = strip_or_None (a_name merged),
                              r_access_token = token resolution,
                              r_phone_number_id = phone_number_id,
                              r_business_account_id =
                                strip_or_None (a_business_account_id merged),
                              r_token_source = source resolution,
                              r_configured = configured,
                              r_config = merged \<rparr>))))"

subsection \<open>Group config resolution\<close>

text \<open>\<open>groups.get(group_id)\<close> under \<open>if groups:\<close>; a model is always truthy.\<close>

definition groups_get ::
  "(string \<times> WhatsAppGroupRuntimeConfig) list option \<Rightarrow> string \<Rightarrow> WhatsAppGroupRuntimeConfig option" where
  "groups_get groups group_id =
     (case groups of
        None \<Rightarrow> None
      | Some gs \<Rightarrow> if gs = [] then None else map_of gs group_id)"

definition resolve_whatsapp_group_config ::
  "AgentRuntime \<Rightarrow> string \<Rightarrow> string \<Rightarrow> error + WhatsAppGroupRuntimeConfig option" where
  "resolve_whatsapp_group_config runtime account_id group_id =
     (case get_multi_account_config runtime of
        Inl e \<Rightarrow> Inl e
      | Inr multi_config \<Rightarrow>
     (case get_account_config runtime account_id of
        Inl e \<Rightarrow> Inl e
      | Inr account_config \<Rightarrow>
          (case (case account_config of
                   None \<Rightarrow> None
                 | Some a \<Rightarrow> groups_get (a_groups a) group_id) of
             Some group' \<Rightarrow> Inr (Some group')
           | None \<Rightarrow>
               (case groups_get (m_groups multi_config) group_id of
                  Some group' \<Rightarrow> Inr (Some group')
                | None \<Rightarrow> Inr None))))"

subsection \<open>Allowlist management\<close>

text \<open>\<open>policy_field or default\<close>: \<open>None\<close> and the empty string give the default.\<close>

definition policy_or :: "string option \<Rightarrow> string \<Rightarrow> string" where
  "policy_or p d = (case p of None \<Rightarrow> d | Some s \<Rightarrow> if s = [] then d else s)"

text \<open>\<open>xs\<close> as a condition, for an optional list: neither \<open>None\<close> nor empty.\<close>

definition truthy :: "'a list option \<Rightarrow> bool" where
  "truthy xs = (case xs of None \<Rightarrow> False | Some l \<Rightarrow> l \<noteq> [])"

definition is_whatsapp_user_allowed ::
  "string \<Rightarrow> WhatsAppAccountRuntimeConfig \<Rightarrow> bool \<Rightarrow> string option
     \<Rightarrow> WhatsAppGroupRuntimeConfig option \<Rightarrow> bool" where
  "is_whatsapp_user_allowed identifier account_config is_group group_id group_config =
     (if is_group then
        (let policy = policy_or (a_group_policy account_config) ''allowlist''
         in if policy = ''disabled'' then False
            else if policy = ''open'' then True
            else if group_config \<noteq> None \<and> truthy (g_allow_from (the group_config))
              then list_ex (\<lambda>a. str a = identifier) (the (g_allow_from (the group_config)))
            else if truthy (a_group_allow_from account_config)
              then list_ex (\<lambda>a. str a = identifier) (the (a_group_allow_from account_config))
            else policy \<noteq> ''allowlist'')
      else
        (let policy = policy_or (a_dm_policy account_config) ''pairing''
         in if policy = ''disabled'' then False
            else if policy = ''open'' then True
            else if policy = ''pairing'' then True
            else if truthy (a_allow_from account_config)
              then list_ex (\<lambda>a. str a = identifier) (the (a_allow_from account_config))
            else False))"

definition is_whatsapp_group_allowed ::
  "string \<Rightarrow> WhatsAppAccountRuntimeConfig \<Rightarrow> WhatsAppGroupRuntimeConfig option \<Rightarrow> bool" where
  "is_whatsapp_group_allowed group_id account_config group_config =
     (let policy = policy_or (a_group_policy account_config) ''allowlist''
      in if policy = ''disabled'' then False
         else if policy = ''open'' then True
         else if group_config \<noteq> None then g_enabled (the group_config) \<noteq> Some False
         else if truthy (a_group_allow_from account_config)
           then list_ex (\<lambda>a. str a = group_id) (the (a_group_allow_from account_config))
         else policy \<noteq> ''allowlist'')"

section \<open>The specification's token precedence\<close>

text \<open>
  The order in which the specification lists the candidates for the token, as a search:
  the named-account token first; for the default account only, the global token and then
  the environment token; the first candidate that is not empty after trimming wins, and
  without one the result is the empty token with source \<open>none\<close>.
\<close>

fun first_nonblank :: "(string option \<times> WhatsAppTokenSource) list \<Rightarrow> WhatsAppTokenResolution" where
  "first_nonblank [] = \<lparr> token = [], source = NONE \<rparr>"
| "first_nonblank ((v, src) # rest) =
     (case v of
        None \<Rightarrow> first_nonblank rest
      | Some s \<Rightarrow> if strip s \<noteq> [] then \<lparr> token = strip s, source = src \<rparr>
                  else first_nonblank rest)"

definition spec_token_precedence ::
  "string option \<Rightarrow> string option \<Rightarrow> string option \<Rightarrow> string \<Rightarrow> WhatsAppTokenResolution" where
  "spec_token_precedence account_token global_token env_token account_id =
     first_nonblank
       ((account_token, CONFIG)
        # (if account_id = ''default'' then [(global_token, CONFIG), (env_token, ENV)] else []))"

section \<open>Example configurations\<close>

definition no_settings :: "string \<Rightarrow> string option" where
  "no_settings key = None"

definition empty_raw_account :: raw_account where
  "empty_raw_account =
     \<lparr> ra_name = Missing, ra_enabled = Missing, ra_accessToken = Missing,
       ra_phoneNumberId = Missing, ra_businessAccountId = Missing,
       ra_webhookVerifyToken = Missing, ra_apiVersion = Missing, ra_allowFrom = Missing,
       ra_groupAllowFrom = Missing, ra_dmPolicy = Missing, ra_groupPolicy = Missing,
       ra_mediaMaxMb = Missing, ra_textChunkLimit = Missing, ra_groups = Missing \<rparr>"

definition empty_raw_multi :: raw_multi where
  "empty_raw_multi =
     \<lparr> rm_enabled = Missing, rm_accessToken = Missing, rm_phoneNumberId = Missing,
       rm_businessAccountId = Missing, rm_webhookVerifyToken = Missing,
       rm_apiVersion = Missing, rm_dmPolicy = Missing, rm_groupPolicy = Missing,
       rm_mediaMaxMb = Missing, rm_textChunkLimit = Missing, rm_accounts = Missing,
       rm_groups = Missing \<rparr>"

definition empty_account_config :: WhatsAppAccountRuntimeConfig where
  "empty_account_config =
     \<lparr> a_name = None, a_enabled = None, a_access_token = None, a_phone_number_id = None,
       a_business_account_id = None, a_webhook_verify_token = None, a_api_version = None,
       a_allow_from = None, a_group_allow_from = None, a_dm_policy = None,
       a_group_policy = None, a_media_max_mb = None, a_text_chunk_limit = None,
       a_groups = None \<rparr>"

text \<open>The configuration \<open>{accessToken: "base", accounts: {business: {accessToken: "biz",
  phoneNumberId: "123"}}}\<close> with the setting \<open>WHATSAPP_ACCESS_TOKEN = "env"\<close>.\<close>

definition business_runtime :: AgentRuntime where
  "business_runtime =
     \<lparr> whatsapp = Some (empty_raw_multi
          \<lparr> rm_accessToken := Accepted ''base'',
            rm_accounts := Accepted [(''business'',
               empty_raw_account \<lparr> ra_accessToken := Accepted ''biz'',
                                   ra_phoneNumberId := Accepted ''123'' \<rparr>)] \<rparr>),
       settings = (\<lambda>key. if key = ''WHATSAPP_ACCESS_TOKEN'' then Some ''env'' else None) \<rparr>"

text \<open>No character configuration; the setting \<open>WHATSAPP_DM_POLICY = "bogus"\<close>.\<close>

definition bogus_policy_runtime :: AgentRuntime where
  "bogus_policy_runtime =
     \<lparr> whatsapp = None,
       settings = (\<lambda>key. if key = ''WHATSAPP_DM_POLICY'' then Some ''bogus'' else None) \<rparr>"

text \<open>The configuration \<open>{mediaMaxMb: "many"}\<close>: a string that is no number, where the
  field is an \<open>int\<close>.\<close>

definition bad_shape_runtime :: AgentRuntime where
  "bad_shape_runtime =
     \<lparr> whatsapp = Some (empty_raw_multi \<lparr> rm_mediaMaxMb := Rejected \<rparr>),
       settings = no_settings \<rparr>"

section \<open>Facts about strings\<close>

lemma strip_Nil: "strip [] = []"
  by (simp add: strip_def lstrip_def rstrip_def)

lemma last_dropWhile_eq: "dropWhile P xs \<noteq> [] \<Longrightarrow> last (dropWhile P xs) = last xs"
  by (induction xs) auto

lemma strip_ends:
  assumes "strip s \<noteq> []"
  shows "\<not> is_space (hd (strip s))" and "\<not> is_space (last (strip s))"
proof -
  let ?l = "lstrip s"
  let ?d = "dropWhile is_space (rev ?l)"
  from assms have d: "?d \<noteq> []" by (simp add: strip_def rstrip_def)
  then have l: "?l \<noteq> []" by auto
  have hl: "\<not> is_space (hd ?l)" using l unfolding lstrip_def by (rule hd_dropWhile)
  have "last (strip s) = hd ?d" using d by (simp add: strip_def rstrip_def last_rev)
  moreover have "\<not> is_space (hd ?d)" using d by (rule hd_dropWhile)
  ultimately show "\<not> is_space (last (strip s))" by simp
  have "hd (strip s) = last ?d" using d by (simp add: strip_def rstrip_def hd_rev)
  also have "\<dots> = last (rev ?l)" using d by (rule last_dropWhile_eq)
  also have "\<dots> = hd ?l" using l by (simp add: last_rev)
  finally show "\<not> is_space (hd (strip s))" using hl by simp
qed

lemma strip_fixed:
  assumes "t \<noteq> []" "\<not> is_space (hd t)" "\<not> is_space (last t)"
  shows "strip t = t"
proof -
  from assms(1,2) have l: "lstrip t = t" by (cases t) (simp_all add: lstrip_def)
  from assms(1,3) have "dropWhile is_space (rev t) = rev t"
    by (cases "rev t") (simp_all add: hd_rev [symmetric])
  then show ?thesis by (simp add: strip_def l rstrip_def)
qed

lemma strip_strip: "strip (strip s) = strip s"
proof (cases "strip s = []")
  case True
  then show ?thesis by (simp add: strip_Nil)
next
  case False
  from strip_fixed [OF False strip_ends [OF False]] show ?thesis .
qed

lemma length_rstrip_le: "length (rstrip s) \<le> length s"
  unfolding rstrip_def by (metis length_dropWhile_le length_rev)

lemma length_lstrip_le: "length (lstrip s) \<le> length s"
  unfolding lstrip_def by (rule length_dropWhile_le)

lemma rfind_from_upper: "rfind_from s sub i \<le> int i"
  by (induction i) auto

lemma rfind_upper: "rfind s sub \<le> int (length s) - int (length sub) \<or> rfind s sub = - 1"
  using rfind_from_upper [of s sub "length s - length sub"]
  by (auto simp: rfind_def)

lemma nonblank_Some: "nonblank (Some s) = (strip s \<noteq> [])"
  by (auto simp: nonblank_def strip_Nil)

lemma nonblank_None: "nonblank None = False"
  by (simp add: nonblank_def)

section \<open>Token resolution\<close>

lemma business_multi_config:
  "get_multi_account_config business_runtime =
     Inr (empty_multi_config
          \<lparr> m_access_token := Some ''base'',
            m_accounts := Some [(''business'',
               empty_account_config \<lparr> a_access_token := Some ''biz'',
                                      a_phone_number_id := Some ''123'' \<rparr>)] \<rparr>)"
  by (simp add: get_multi_account_config_def get_character_whatsapp_def business_runtime_def
      validate_multi_def validate_account_def validate_group_def empty_raw_multi_def
      empty_raw_account_def empty_multi_config_def empty_account_config_def literal_ok_def)

lemma business_account_config:
  "get_account_config business_runtime ''business'' =
     Inr (Some (empty_account_config \<lparr> a_access_token := Some ''biz'',
                                        a_phone_number_id := Some ''123'' \<rparr>))"
  by (simp add: get_account_config_def business_multi_config empty_multi_config_def)

lemma normalize_Default: "normalize_account_id (Some ''Default'') = ''default''"
  by code_simp

lemma business_Default_config: "get_account_config business_runtime ''Default'' = Inr None"
  by (simp add: get_account_config_def business_multi_config empty_multi_config_def
      normalize_Default)
     code_simp

text \<open>
  C1. Token resolution precedence. Whenever the configuration of the runtime can be read,
  \<open>resolve_whatsapp_token\<close> returns the first of these that is not empty after trimming:
  the named-account \<open>accessToken\<close> (source config); then, only when the account id is
  \<open>default\<close>, the global \<open>accessToken\<close> (source config) and the setting
  \<open>WHATSAPP_ACCESS_TOKEN\<close> (source env); the result is the trimmed value, and without
  such a value it is the empty token with source none. For any other account id only the
  named-account token is a candidate, so a named account never receives the global or
  the environment token.
\<close>

theorem resolve_whatsapp_token_precedence:
  assumes "get_multi_account_config runtime = Inr multi_config"
    and "get_account_config runtime account_id = Inr account_config"
  shows "resolve_whatsapp_token runtime account_id =
           Inr (spec_token_precedence (account_key account_config a_access_token)
                  (m_access_token multi_config)
                  (get_setting runtime ''WHATSAPP_ACCESS_TOKEN'') account_id)
         \<and> (account_id \<noteq> DEFAULT_ACCOUNT_ID \<longrightarrow>
              resolve_whatsapp_token runtime account_id =
                Inr (first_nonblank [(account_key account_config a_access_token, CONFIG)]))"
  using assms
  by (cases account_config; cases "m_access_token multi_config";
      cases "get_setting runtime ''WHATSAPP_ACCESS_TOKEN''")
     (auto simp: resolve_whatsapp_token_def spec_token_precedence_def account_key_def
        DEFAULT_ACCOUNT_ID_def nonblank_Some nonblank_None split: option.splits)

theorem resolve_whatsapp_token_precedence_witness:
  "resolve_whatsapp_token business_runtime ''business'' = Inr \<lparr> token = ''biz'', source = CONFIG \<rparr>"
proof -
  have s: "strip ''biz'' = ''biz''" by code_simp
  show ?thesis
    using resolve_whatsapp_token_precedence [OF business_multi_config business_account_config]
    by (simp add: spec_token_precedence_def account_key_def empty_account_config_def s)
qed

text \<open>
  C10. The fallbacks to the global token and to \<open>WHATSAPP_ACCESS_TOKEN\<close> apply only when
  the account id is literally \<open>default\<close>. For an id that normalizes to \<open>default\<close> without
  being that string, and no named-account entry with a token for it,
  \<open>resolve_whatsapp_token\<close> returns the empty token with source none, whatever the global
  and the environment token are.
\<close>

theorem resolve_whatsapp_token_literal_default:
  assumes "get_multi_account_config runtime = Inr multi_config"
    and "get_account_config runtime account_id = Inr account_config"
    and "normalize_account_id (Some account_id) = DEFAULT_ACCOUNT_ID"
    and "account_id \<noteq> DEFAULT_ACCOUNT_ID"
    and "\<not> nonblank (account_key account_config a_access_token)"
  shows "resolve_whatsapp_token runtime account_id = Inr \<lparr> token = [], source = NONE \<rparr>"
  using assms
  by (cases account_config)
     (auto simp: resolve_whatsapp_token_def account_key_def)

theorem resolve_whatsapp_token_literal_default_witness:
  "normalize_account_id (Some ''Default'') = DEFAULT_ACCOUNT_ID
   \<and> m_access_token (empty_multi_config
          \<lparr> m_access_token := Some ''base'',
            m_accounts := Some [(''business'',
               empty_account_config \<lparr> a_access_token := Some ''biz'',
                                      a_phone_number_id := Some ''123'' \<rparr>)] \<rparr>) = Some ''base''
   \<and> get_setting business_runtime ''WHATSAPP_ACCESS_TOKEN'' = Some ''env''
   \<and> resolve_whatsapp_token business_runtime ''Default'' = Inr \<lparr> token = [], source = NONE \<rparr>"
proof -
  have n: "normalize_account_id (Some ''Default'') = DEFAULT_ACCOUNT_ID"
    by (simp add: normalize_Default DEFAULT_ACCOUNT_ID_def)
  have d: "''Default'' \<noteq> DEFAULT_ACCOUNT_ID" by (simp add: DEFAULT_ACCOUNT_ID_def)
  have b: "\<not> nonblank (account_key None a_access_token)"
    by (simp add: account_key_def nonblank_None)
  have e: "get_setting business_runtime ''WHATSAPP_ACCESS_TOKEN'' = Some ''env''"
    by (simp add: get_setting_def business_runtime_def)
  show ?thesis
    using resolve_whatsapp_token_literal_default
            [OF business_multi_config business_Default_config n d b] n e
    by (simp add: empty_multi_config_def)
qed

section \<open>Account resolution\<close>

lemma resolve_token_stripped:
  assumes "resolve_whatsapp_token runtime account_id = Inr res"
  shows "strip (token res) = token res"
  using assms
  by (auto simp: resolve_whatsapp_token_def strip_strip strip_Nil
      split: sum.splits if_splits)

text \<open>
  C4. Configured invariant. Every account that \<open>resolve_whatsapp_account\<close> returns has
  \<open>configured\<close> true exactly when its access token and its phone-number identifier are
  both non-empty after trimming.
\<close>

theorem resolve_whatsapp_account_configured:
  assumes "resolve_whatsapp_account runtime account_id = Inr r"
  shows "r_configured r
           = (strip (r_access_token r) \<noteq> [] \<and> strip (r_phone_number_id r) \<noteq> [])"
proof -
  let ?id = "normalize_account_id account_id"
  from assms obtain mc where mc: "get_multi_account_config runtime = Inr mc"
    by (cases "get_multi_account_config runtime")
       (simp_all add: resolve_whatsapp_account_def Let_def)
  from assms mc obtain merged where m: "merge_whatsapp_account_config runtime ?id = Inr merged"
    by (cases "merge_whatsapp_account_config runtime ?id")
       (simp_all add: resolve_whatsapp_account_def Let_def)
  from assms mc m obtain res where t: "resolve_whatsapp_token runtime ?id = Inr res"
    by (cases "resolve_whatsapp_token runtime ?id")
       (simp_all add: resolve_whatsapp_account_def Let_def)
  define p where "p = (case a_phone_number_id merged of None \<Rightarrow> [] | Some s \<Rightarrow> s)"
  from assms mc m t have tok: "r_access_token r = token res"
    and ph: "r_phone_number_id r = strip p"
    and cf: "r_configured r = (token res \<noteq> [] \<and> strip p \<noteq> [])"
    by (auto simp: resolve_whatsapp_account_def Let_def p_def)
  show ?thesis
    by (simp add: cf tok ph resolve_token_stripped [OF t] strip_strip)
qed

lemma business_resolved:
  "resolve_whatsapp_account business_runtime (Some ''business'') =
     Inr \<lparr> r_account_id = ''business'', r_enabled = True, r_name = None,
           r_access_token = ''biz'', r_phone_number_id = ''123'',
           r_business_account_id = None, r_token_source = CONFIG, r_configured = True,
           r_config = empty_account_config \<lparr> a_access_token := Some ''biz'',
                                             a_phone_number_id := Some ''123'' \<rparr> \<rparr>"
proof -
  have n: "normalize_account_id (Some ''business'') = ''business''" by code_simp
  have s: "strip ''biz'' = ''biz''" "strip ''123'' = ''123''" by code_simp+
  have g: "get_setting business_runtime key
             = (if key = ''WHATSAPP_ACCESS_TOKEN'' then Some ''env'' else None)" for key
    by (simp add: get_setting_def business_runtime_def)
  have t: "resolve_whatsapp_token business_runtime ''business''
             = Inr \<lparr> token = ''biz'', source = CONFIG \<rparr>"
    by (simp add: resolve_whatsapp_token_def business_multi_config business_account_config
        empty_account_config_def nonblank_Some s)
  have m: "merge_whatsapp_account_config business_runtime ''business''
             = Inr (empty_account_config \<lparr> a_access_token := Some ''biz'',
                                            a_phone_number_id := Some ''123'' \<rparr>)"
    by (simp add: merge_whatsapp_account_config_def business_multi_config
        business_account_config empty_account_config_def empty_multi_config_def
        merged_key_def account_key_def or_None_def g
        construct_account_config_def literal_ok_def)
  show ?thesis
    by (simp add: resolve_whatsapp_account_def n business_multi_config m t s
        empty_multi_config_def empty_account_config_def strip_or_None_def Let_def)
qed

theorem resolve_whatsapp_account_configured_witness:
  "\<exists>r. resolve_whatsapp_account business_runtime (Some ''business'') = Inr r
       \<and> r_configured r
       \<and> strip (r_access_token r) \<noteq> [] \<and> strip (r_phone_number_id r) \<noteq> []"
  using resolve_whatsapp_account_configured [OF business_resolved] business_resolved
  by simp

section \<open>E.164 normalization\<close>

lemma kept_after_stripped:
  "is_digit c \<or> c = CHR ''+'' \<Longrightarrow>
     \<not> (is_space c \<or> c = CHR ''-'' \<or> c = CHR ''('' \<or> c = CHR '')'' \<or> c = CHR ''.''
        \<or> c = CHR '' '')"
  by (auto simp: is_digit_def is_space_def)

lemma normalize_e164_filter:
  "filter (\<lambda>c. is_digit c \<or> c = CHR ''+'')
     (filter (\<lambda>c. \<not> (is_space c \<or> c = CHR ''-'' \<or> c = CHR ''('' \<or> c = CHR '')''
                      \<or> c = CHR ''.'' \<or> c = CHR '' '')) input)
   = filter (\<lambda>c. is_digit c \<or> c = CHR ''+'') input"
proof -
  have "(\<lambda>c. \<not> (is_space c \<or> c = CHR ''-'' \<or> c = CHR ''('' \<or> c = CHR '')''
                 \<or> c = CHR ''.'' \<or> c = CHR '' '') \<and> (is_digit c \<or> c = CHR ''+''))
        = (\<lambda>c. is_digit c \<or> c = CHR ''+'')"
    using kept_after_stripped by blast
  then show ?thesis by (simp add: conj_commute)
qed

text \<open>
  C3, as the code has it. \<open>normalize_e164\<close> keeps the digits and every plus sign of the
  input, not only a leading one, and drops every other character. If nothing is kept the
  result is empty; if what is kept starts with a plus sign it is returned unchanged; if it
  starts with \<open>00\<close> these two characters are replaced by a plus sign; otherwise a plus sign
  is put in front when what is kept has ten or more characters (digits and plus signs
  together), and shorter strings are returned as they are. The four examples of the
  specification hold.
\<close>

theorem normalize_e164_algorithm:
  "normalize_e164 input =
     (let kept = filter (\<lambda>c. is_digit c \<or> c = CHR ''+'') input
      in if kept = [] then []
         else if hd kept = CHR ''+'' then kept
         else if take 2 kept = ''00'' then CHR ''+'' # drop 2 kept
         else if 10 \<le> length kept then CHR ''+'' # kept
         else kept)
   \<and> normalize_e164 ''+1 (234) 567.8901'' = ''+12345678901''
   \<and> normalize_e164 ''0012345678901'' = ''+12345678901''
   \<and> normalize_e164 ''123456789'' = ''123456789''
   \<and> normalize_e164 [] = []"
proof -
  let ?kept = "filter (\<lambda>c. is_digit c \<or> c = CHR ''+'') input"
  have s2: "startswith ?kept ''00'' = (take 2 ?kept = ''00'')"
    by (simp add: startswith_def numeral_2_eq_2)
  have a: "normalize_e164 input =
     (let kept = ?kept
      in if kept = [] then []
         else if hd kept = CHR ''+'' then kept
         else if take 2 kept = ''00'' then CHR ''+'' # drop 2 kept
         else if 10 \<le> length kept then CHR ''+'' # kept
         else kept)"
  proof (cases "?kept = []")
    case True
    then show ?thesis
      unfolding normalize_e164_def normalize_e164_filter Let_def by simp
  next
    case False
    then have s1: "startswith ?kept ''+'' = (hd ?kept = CHR ''+'')"
      by (cases ?kept) (simp_all add: startswith_def)
    show ?thesis
      unfolding normalize_e164_def normalize_e164_filter Let_def s1 s2 by simp
  qed
  have b: "normalize_e164 ''+1 (234) 567.8901'' = ''+12345678901''" by code_simp
  have c: "normalize_e164 ''0012345678901'' = ''+12345678901''" by code_simp
  have d: "normalize_e164 ''123456789'' = ''123456789''" by code_simp
  have e: "normalize_e164 [] = []" by code_simp
  from a b c d e show ?thesis by blast
qed

theorem normalize_e164_algorithm_witness:
  "normalize_e164 ''+1-234-ABC-567'' = ''+1234567''"
proof -
  have k: "filter (\<lambda>c. is_digit c \<or> c = CHR ''+'') ''+1-234-ABC-567'' = ''+1234567''"
    by code_simp
  from normalize_e164_algorithm [of "''+1-234-ABC-567''"]
  have "normalize_e164 ''+1-234-ABC-567'' =
     (let kept = filter (\<lambda>c. is_digit c \<or> c = CHR ''+'') ''+1-234-ABC-567''
      in if kept = [] then []
         else if hd kept = CHR ''+'' then kept
         else if take 2 kept = ''00'' then CHR ''+'' # drop 2 kept
         else if 10 \<le> length kept then CHR ''+'' # kept
         else kept)"
    by blast
  then show ?thesis unfolding k by simp
qed

text \<open>
  Where the code leaves the sentence of the specification: the input \<open>+\<close> has no digit and
  is returned as \<open>+\<close>, not as the empty string; the plus sign inside \<open>1+2\<close> is kept; and
  \<open>123456789+\<close>, with nine digits, is given a leading plus sign.
\<close>

theorem normalize_e164_counterexample:
  "filter is_digit ''+'' = [] \<and> normalize_e164 ''+'' = ''+'' \<and> normalize_e164 ''+'' \<noteq> []
   \<and> normalize_e164 ''1+2'' = ''1+2''
   \<and> length (filter is_digit ''123456789+'') = 9
   \<and> normalize_e164 ''123456789+'' = ''+123456789+''"
proof -
  have a: "filter is_digit ''+'' = []" by code_simp
  have b: "normalize_e164 ''+'' = ''+''" by code_simp
  have c: "normalize_e164 ''1+2'' = ''1+2''" by code_simp
  have d: "length (filter is_digit ''123456789+'') = 9" by code_simp
  have e: "normalize_e164 ''123456789+'' = ''+123456789+''" by code_simp
  from a b c d e show ?thesis by simp
qed

section \<open>Target normalization\<close>

text \<open>
  C7. A string that, after its \<open>whatsapp:\<close> prefixes are stripped, contains \<open>@\<close> and is
  neither a group JID nor a user JID or LID is not normalized: \<open>normalize_whatsapp_target\<close>
  returns \<open>None\<close>. The three examples of the specification hold.
\<close>

theorem normalize_whatsapp_target_fail_fast:
  "(CHR ''@'' \<in> set (strip_whatsapp_target_prefixes v)
      \<and> \<not> is_whatsapp_group_jid (strip_whatsapp_target_prefixes v)
      \<and> \<not> is_whatsapp_user_target (strip_whatsapp_target_prefixes v)
    \<longrightarrow> normalize_whatsapp_target v = None)
   \<and> normalize_whatsapp_target ''41796666864:0@s.whatsapp.net'' = Some ''+41796666864''
   \<and> normalize_whatsapp_target ''whatsapp:whatsapp:+1234567890'' = Some ''+1234567890''
   \<and> normalize_whatsapp_target ''some@random@thing'' = None"
proof -
  have a: "CHR ''@'' \<in> set (strip_whatsapp_target_prefixes v)
      \<and> \<not> is_whatsapp_group_jid (strip_whatsapp_target_prefixes v)
      \<and> \<not> is_whatsapp_user_target (strip_whatsapp_target_prefixes v)
    \<longrightarrow> normalize_whatsapp_target v = None"
    by (auto simp: normalize_whatsapp_target_def Let_def)
  have b: "normalize_whatsapp_target ''41796666864:0@s.whatsapp.net'' = Some ''+41796666864''"
    by code_simp
  have c: "normalize_whatsapp_target ''whatsapp:whatsapp:+1234567890'' = Some ''+1234567890''"
    by code_simp
  have d: "normalize_whatsapp_target ''some@random@thing'' = None"
    by code_simp
  from a b c d show ?thesis by blast
qed

theorem normalize_whatsapp_target_fail_fast_witness:
  "CHR ''@'' \<in> set (strip_whatsapp_target_prefixes ''whatsapp:12345@example.org'')
   \<and> normalize_whatsapp_target ''whatsapp:12345@example.org'' = None"
proof -
  have s: "strip_whatsapp_target_prefixes ''whatsapp:12345@example.org'' = ''12345@example.org''"
    by code_simp
  have g: "\<not> is_whatsapp_group_jid ''12345@example.org''" by code_simp
  have u: "\<not> is_whatsapp_user_target ''12345@example.org''" by code_simp
  have m: "CHR ''@'' \<in> set ''12345@example.org''" by simp
  from normalize_whatsapp_target_fail_fast [of "''whatsapp:12345@example.org''"] s g u m
  show ?thesis by simp
qed

section \<open>Text chunking\<close>

lemma cut_rest_shorter:
  assumes "0 < idx" "0 \<le> k"
    and "text \<noteq> []"
  shows "length (lstrip (py_drop (idx + k) text)) < length text"
proof -
  have "length (py_drop (idx + k) text) < length text"
    using assms by (auto simp: py_drop_def)
  with length_lstrip_le [of "py_drop (idx + k) text"] show ?thesis by linarith
qed

lemma cut_chunk_short:
  assumes "0 \<le> idx" "idx \<le> limit"
  shows "int (length (rstrip (py_take idx text))) \<le> limit"
proof -
  have "int (length (py_take idx text)) \<le> idx"
    using assms by (auto simp: py_take_def)
  with length_rstrip_le [of "py_take idx text"] assms show ?thesis by linarith
qed

lemma half_of_nonneg: "0 < limit \<Longrightarrow> 0 \<le> half_of limit"
  by (simp add: half_of_def)

lemma rfind_search_area:
  assumes "0 < limit" "limit < int (length text)"
    and "half_of limit < rfind (py_take limit text) sub"
  shows "0 < rfind (py_take limit text) sub"
    and "rfind (py_take limit text) sub + int (length sub) \<le> limit"
proof -
  from assms(1,3) half_of_nonneg [of limit] show "0 < rfind (py_take limit text) sub"
    by linarith
  then have "rfind (py_take limit text) sub \<noteq> - 1" by simp
  with rfind_upper [of "py_take limit text" sub]
  have "rfind (py_take limit text) sub \<le> int (length (py_take limit text)) - int (length sub)"
    by blast
  moreover have "int (length (py_take limit text)) = limit"
    using assms(1,2) by (simp add: py_take_def)
  ultimately show "rfind (py_take limit text) sub + int (length sub) \<le> limit" by linarith
qed

lemma split_shrinks:
  assumes "0 < limit" "text \<noteq> []"
  shows "length (snd (split_at_break_point text limit)) < length text"
proof (cases "int (length text) \<le> limit")
  case True
  with assms show ?thesis by (simp add: split_at_break_point_def)
next
  case False
  then have lt: "limit < int (length text)" by simp
  note R = rfind_search_area [OF assms(1) lt]
  have hard: "length (py_drop limit text) < length text"
    using assms lt by (auto simp: py_drop_def)
  show ?thesis
    using False hard
      cut_rest_shorter [OF R(1) _ assms(2), of "[CHR 0x0A, CHR 0x0A]" 2]
      cut_rest_shorter [OF R(1) _ assms(2), of "[CHR 0x0A]" 1]
      cut_rest_shorter [OF R(1) _ assms(2), of "'' ''" 1]
      cut_rest_shorter [OF R(1) _ assms(2), of "''. ''" 2]
      cut_rest_shorter [OF R(1) _ assms(2), of "''! ''" 2]
      cut_rest_shorter [OF R(1) _ assms(2), of "''? ''" 2]
    by (auto simp: split_at_break_point_def Let_def max_def)
qed

lemma split_chunk_short:
  assumes "0 < limit"
  shows "int (length (fst (split_at_break_point text limit))) \<le> limit"
proof (cases "int (length text) \<le> limit")
  case True
  then show ?thesis by (simp add: split_at_break_point_def)
next
  case False
  then have lt: "limit < int (length text)" by simp
  note R = rfind_search_area [OF assms(1) lt]
  have hard: "int (length (py_take limit text)) \<le> limit"
    using assms lt by (auto simp: py_take_def)
  have c: "int (length (rstrip (py_take (rfind (py_take limit text) sub) text))) \<le> limit"
    if h: "half_of limit < rfind (py_take limit text) sub" for sub
    using R(1) [OF h] R(2) [OF h] by (intro cut_chunk_short) linarith+
  have s: "int (length (rstrip (py_take (rfind (py_take limit text) sub + 1) text))) \<le> limit"
    if h: "half_of limit < rfind (py_take limit text) sub" and l: "length sub = 2" for sub
    using R(1) [OF h] R(2) [OF h] l by (intro cut_chunk_short) linarith+
  show ?thesis
    using False hard c s [of "''. ''"] s [of "''! ''"] s [of "''? ''"]
    by (auto simp: split_at_break_point_def Let_def max_def)
qed

text \<open>With a positive limit the loop ends, and every chunk it adds is non-empty and no longer
  than the limit.\<close>

lemma chunk_loop_total:
  assumes "0 < limit"
  shows "\<exists>ys. chunk_loop remaining limit chunks = Some ys \<and>
           (\<forall>c \<in> set ys. c \<in> set chunks \<or> (c \<noteq> [] \<and> int (length c) \<le> limit))"
proof (induction remaining arbitrary: chunks rule: measure_induct_rule [where f = length])
  case (less remaining)
  show ?case
  proof (cases "remaining = []")
    case True
    then show ?thesis by (simp add: chunk_loop.simps)
  next
    case False
    obtain chunk rest where sp: "split_at_break_point remaining limit = (chunk, rest)"
      by (cases "split_at_break_point remaining limit")
    let ?chunks = "if chunk \<noteq> [] then chunks @ [chunk] else chunks"
    from split_shrinks [OF assms False] sp have "length rest < length remaining" by simp
    from less.IH [OF this, of ?chunks]
    obtain ys where ys: "chunk_loop rest limit ?chunks = Some ys"
      and pr: "\<forall>c \<in> set ys. c \<in> set ?chunks \<or> (c \<noteq> [] \<and> int (length c) \<le> limit)"
      by blast
    from split_chunk_short [OF assms, of remaining] sp
    have cl: "int (length chunk) \<le> limit" by simp
    have "chunk_loop remaining limit chunks = Some ys"
      using False sp ys by (subst chunk_loop.simps) simp
    moreover have "\<forall>c \<in> set ys. c \<in> set chunks \<or> (c \<noteq> [] \<and> int (length c) \<le> limit)"
      using pr cl by (auto split: if_splits)
    ultimately show ?thesis by blast
  qed
qed

text \<open>With the limit 0 the hard cut takes nothing off the text \<open>a\<close>, and the loop never
  returns.\<close>

lemma chunk_loop_stuck:
  assumes "chunk_loop remaining limit chunks = Some ys"
  shows "\<not> (remaining = ''a'' \<and> limit = 0)"
proof (rule chunk_loop.raw_induct [where P = "\<lambda>r l c y. \<not> (r = ''a'' \<and> l = 0)", OF _ assms])
  fix f :: "string \<Rightarrow> int \<Rightarrow> string list \<Rightarrow> string list option"
  fix r l c y
  assume IH: "\<And>r' l' c' y'. f r' l' c' = Some y' \<Longrightarrow> \<not> (r' = ''a'' \<and> l' = 0)"
    and eq: "(if r = [] then Some c
              else let (chunk, rest) = split_at_break_point r l
                   in f rest l (if chunk \<noteq> [] then c @ [chunk] else c)) = Some y"
  show "\<not> (r = ''a'' \<and> l = 0)"
  proof
    assume a: "r = ''a'' \<and> l = 0"
    have sp: "split_at_break_point ''a'' 0 = ([], ''a'')" by code_simp
    from eq a sp have "f ''a'' 0 c = Some y" by simp
    from IH [OF this] show False by simp
  qed
qed

text \<open>
  C9, for the limits on which it holds. With a positive limit (the default 4096 is one)
  \<open>chunk_whatsapp_text\<close> returns for every text, and every call of the split step on a
  non-empty text leaves a remainder that is strictly shorter than the text.
\<close>

theorem chunk_whatsapp_text_terminates:
  assumes "0 < effective_limit limit"
  shows "(\<exists>chunks. chunk_whatsapp_text text limit = Some chunks)
         \<and> (remaining \<noteq> [] \<longrightarrow>
              length (snd (split_at_break_point remaining (effective_limit limit)))
                < length remaining)"
proof -
  from chunk_loop_total [OF assms, of "strip text" "[]"]
  obtain ys where "chunk_loop (strip text) (effective_limit limit) [] = Some ys" by blast
  then have "\<exists>chunks. chunk_whatsapp_text text limit = Some chunks"
    by (auto simp: chunk_whatsapp_text_def effective_limit_def Let_def)
  with split_shrinks [OF assms] show ?thesis by blast
qed

theorem chunk_whatsapp_text_terminates_witness:
  "0 < effective_limit (Some 15)
   \<and> chunk_whatsapp_text ''Hello World Foo Bar Baz'' (Some 15) = Some [''Hello World'', ''Foo Bar Baz'']
   \<and> length (snd (split_at_break_point ''Hello World Foo Bar Baz'' 15))
        < length ''Hello World Foo Bar Baz''"
proof -
  have p: "0 < effective_limit (Some 15)" by (simp add: effective_limit_def)
  have e: "effective_limit (Some 15) = 15" by (simp add: effective_limit_def)
  have v: "chunk_whatsapp_text ''Hello World Foo Bar Baz'' (Some 15)
             = Some [''Hello World'', ''Foo Bar Baz'']"
    by code_simp
  from chunk_whatsapp_text_terminates
         [OF p, of "''Hello World Foo Bar Baz''" "''Hello World Foo Bar Baz''"] p v e
  show ?thesis by simp
qed

theorem chunk_whatsapp_text_limit_zero_counterexample:
  "chunk_whatsapp_text ''a'' (Some 0) = None
   \<and> split_at_break_point ''a'' 0 = ([], ''a'')"
proof -
  have "chunk_loop ''a'' 0 [] = None"
    using chunk_loop_stuck [of "''a''" 0 "[]"] by (cases "chunk_loop ''a'' 0 []") auto
  moreover have "strip ''a'' = ''a''" by code_simp
  moreover have "split_at_break_point ''a'' 0 = ([], ''a'')" by code_simp
  ultimately show ?thesis by (simp add: chunk_whatsapp_text_def)
qed

text \<open>
  C8 at the input on which the code leaves it. The text \<open>aaaa b\<close> with limit 4 has no break
  point in its first four characters, so the hard cut returns the remainder \<open> b\<close> as it
  is: the second chunk starts with a blank and differs from its own trim.
\<close>

theorem chunk_whatsapp_text_untrimmed_chunk:
  "chunk_whatsapp_text ''aaaa b'' (Some 4) = Some [''aaaa'', '' b'']
   \<and> strip '' b'' = ''b''"
proof -
  have a: "chunk_whatsapp_text ''aaaa b'' (Some 4) = Some [''aaaa'', '' b'']" by code_simp
  have b: "strip '' b'' = ''b''" by code_simp
  from a b show ?thesis by simp
qed

text \<open>What does hold of the chunks, for a positive limit: none is empty and none is longer
  than the limit; a blank text gives no chunk and a text that fits gives one.\<close>

lemma chunk_whatsapp_text_shape:
  assumes "0 < effective_limit limit"
  shows "(strip text = [] \<longrightarrow> chunk_whatsapp_text text limit = Some [])
         \<and> (strip text \<noteq> [] \<and> int (length (strip text)) \<le> effective_limit limit
              \<longrightarrow> chunk_whatsapp_text text limit = Some [strip text])
         \<and> (\<exists>chunks. chunk_whatsapp_text text limit = Some chunks
              \<and> (\<forall>c \<in> set chunks. c \<noteq> [] \<and> int (length c) \<le> effective_limit limit))"
proof -
  from chunk_loop_total [OF assms, of "strip text" "[]"]
  obtain ys where ys: "chunk_loop (strip text) (effective_limit limit) [] = Some ys"
    and pr: "\<forall>c \<in> set ys. c \<noteq> [] \<and> int (length c) \<le> effective_limit limit"
    by auto
  have e: "(case limit of None \<Rightarrow> WHATSAPP_TEXT_CHUNK_LIMIT | Some l \<Rightarrow> l) = effective_limit limit"
    by (simp add: effective_limit_def)
  show ?thesis
    using ys pr
    by (auto simp: chunk_whatsapp_text_def Let_def e strip_Nil)
qed

lemma rfind_from_absent:
  assumes "sub \<noteq> []" "hd sub \<notin> set s"
  shows "rfind_from s sub i = - 1"
proof -
  have n: "take (length sub) (drop j s) \<noteq> sub" for j
  proof
    assume eq: "take (length sub) (drop j s) = sub"
    with assms(1) have "hd sub \<in> set (take (length sub) (drop j s))" by simp
    then have "hd sub \<in> set s" by (meson in_set_takeD in_set_dropD)
    with assms(2) show False by simp
  qed
  show ?thesis
  proof (induction i)
    case 0
    from n [of 0] show ?case by simp
  next
    case (Suc i)
    with n [of "Suc i"] show ?case by simp
  qed
qed

lemma rfind_absent: "sub \<noteq> [] \<Longrightarrow> hd sub \<notin> set s \<Longrightarrow> rfind s sub = - 1"
  by (simp add: rfind_def rfind_from_absent)

lemma split_letters:
  assumes "0 < limit" "limit < int n"
  shows "split_at_break_point (replicate n (CHR ''a'')) limit
           = (replicate (nat limit) (CHR ''a''), replicate (n - nat limit) (CHR ''a''))"
proof -
  let ?area = "py_take limit (replicate n (CHR ''a''))"
  have s: "set ?area \<subseteq> {CHR ''a''}" by (auto simp: py_take_def dest: in_set_takeD)
  have r: "rfind ?area sub = - 1" if "sub \<noteq> []" "hd sub \<noteq> CHR ''a''" for sub
    using that s by (intro rfind_absent) auto
  have r1: "rfind ?area [CHR 0x0A, CHR 0x0A] = - 1" by (rule r) simp_all
  have r2: "rfind ?area [CHR 0x0A] = - 1" by (rule r) simp_all
  have r3: "rfind ?area ''. '' = - 1" by (rule r) simp_all
  have r4: "rfind ?area ''! '' = - 1" by (rule r) simp_all
  have r5: "rfind ?area ''? '' = - 1" by (rule r) simp_all
  have r6: "rfind ?area '' '' = - 1" by (rule r) simp_all
  have h: "\<not> half_of limit < - 1" using half_of_nonneg [OF assms(1)] by simp
  have big: "\<not> int (length (replicate n (CHR ''a''))) \<le> limit" using assms by simp
  have t: "py_take limit (replicate n (CHR ''a'')) = replicate (nat limit) (CHR ''a'')"
    using assms by (simp add: py_take_def min_def)
  have d: "py_drop limit (replicate n (CHR ''a'')) = replicate (n - nat limit) (CHR ''a'')"
    using assms by (simp add: py_drop_def)
  have "split_at_break_point (replicate n (CHR ''a'')) limit
          = (py_take limit (replicate n (CHR ''a'')), py_drop limit (replicate n (CHR ''a'')))"
    unfolding split_at_break_point_def Let_def r1 r2 r3 r4 r5 r6
    using big h by simp
  then show ?thesis by (simp only: t d)
qed

lemma strip_letters: "strip (replicate n (CHR ''a'')) = replicate n (CHR ''a'')"
proof (cases n)
  case 0
  then show ?thesis by (simp add: strip_Nil)
next
  case (Suc k)
  have a: "\<not> is_space (CHR ''a'')" by (simp add: is_space_def)
  have "replicate n (CHR ''a'') \<noteq> []" using Suc by simp
  moreover have "hd (replicate n (CHR ''a'')) = CHR ''a''" using Suc by simp
  moreover have "last (replicate n (CHR ''a'')) = CHR ''a''" using Suc by simp
  ultimately show ?thesis using a by (intro strip_fixed) simp_all
qed

text \<open>A text of \<open>n\<close> letters \<open>a\<close>: one chunk when it fits the limit, and two chunks, the
  first of them as long as the limit, when it is longer than the limit and at most twice
  as long. With the default limit 4096 these are the two examples of the specification,
  for \<open>n = 4096\<close> and \<open>n = 4097\<close>.\<close>

lemma chunk_whatsapp_text_letters:
  assumes "0 < effective_limit limit" "0 < n"
  shows "int n \<le> effective_limit limit \<Longrightarrow>
           chunk_whatsapp_text (replicate n (CHR ''a'')) limit = Some [replicate n (CHR ''a'')]"
    and "effective_limit limit < int n \<Longrightarrow> int n \<le> 2 * effective_limit limit \<Longrightarrow>
           chunk_whatsapp_text (replicate n (CHR ''a'')) limit
             = Some [replicate (nat (effective_limit limit)) (CHR ''a''),
                     replicate (n - nat (effective_limit limit)) (CHR ''a'')]"
proof -
  let ?L = "effective_limit limit"
  let ?t = "replicate n (CHR ''a'')"
  have e: "(case limit of None \<Rightarrow> WHATSAPP_TEXT_CHUNK_LIMIT | Some l \<Rightarrow> l) = ?L"
    by (simp add: effective_limit_def)
  have ne: "?t \<noteq> []" using assms(2) by simp
  show "chunk_whatsapp_text ?t limit = Some [?t]" if "int n \<le> ?L"
    using that ne by (simp add: chunk_whatsapp_text_def e strip_letters)
  show "chunk_whatsapp_text ?t limit
          = Some [replicate (nat ?L) (CHR ''a''), replicate (n - nat ?L) (CHR ''a'')]"
    if lt: "?L < int n" and le: "int n \<le> 2 * ?L"
  proof -
    let ?c1 = "replicate (nat ?L) (CHR ''a'')"
    let ?c2 = "replicate (n - nat ?L) (CHR ''a'')"
    have c1: "?c1 \<noteq> []" using assms(1) by simp
    have "nat ?L < n" using lt assms(1) by linarith
    then have c2: "?c2 \<noteq> []" by simp
    have s1: "split_at_break_point ?t ?L = (?c1, ?c2)"
      using split_letters [OF assms(1) lt] .
    have s2: "split_at_break_point ?c2 ?L = (?c2, [])"
      using le lt by (simp add: split_at_break_point_def)
    have l3: "chunk_loop [] ?L [?c1, ?c2] = Some [?c1, ?c2]"
      by (simp add: chunk_loop.simps)
    have l2: "chunk_loop ?c2 ?L [?c1] = Some [?c1, ?c2]"
      using c2 by (subst chunk_loop.simps) (simp add: s2 l3)
    have l1: "chunk_loop ?t ?L [] = Some [?c1, ?c2]"
      using ne c1 by (subst chunk_loop.simps) (simp add: s1 l2)
    show ?thesis
      using ne lt c1 c2 by (simp add: chunk_whatsapp_text_def e strip_letters l1 Let_def)
  qed
qed

end
